theory Spec2Isabelle
  imports Main "HOL-Library.Word" "HOL-Library.Signed_Division"
begin

section \<open>The ruler client (cmd/cortextool/pkg/client/client.go)\<close>

subsection \<open>Errors\<close>

text \<open>
  Go errors are values. The two sentinels of the package are constructors of their own,
  since callers compare against them by identity. \<open>errors_New m\<close> is an error made on the spot by
  \<open>errors.New\<close> or \<open>fmt.Errorf\<close>, \<open>Foreign m\<close> an error that a library hands to the
  client (the URL parser, the HTTP transport, a body reader, the YAML codec), and
  \<open>Wrap e m\<close> is \<open>errors.Wrap(e, m)\<close>. \<open>Canceled\<close> and \<open>DeadlineExceeded\<close> are the two
  errors of a finished context.
\<close>

datatype error =
    ErrNoConfig
  | ErrResourceNotFound
  | Canceled
  | DeadlineExceeded
  | errors_New string
  | Foreign string
  | Wrap error string

fun Error :: "error \<Rightarrow> string" where
  "Error ErrNoConfig = ''No config exists for this user''"
| "Error ErrResourceNotFound = ''requested resource not found''"
| "Error Canceled = ''context canceled''"
| "Error DeadlineExceeded = ''context deadline exceeded''"
| "Error (errors_New m) = m"
| "Error (Foreign m) = m"
| "Error (Wrap e m) = m @ '': '' @ Error e"

text \<open>An error carries a context message when \<open>errors.Wrap\<close> put it there, at any depth.\<close>

fun carries :: "string \<Rightarrow> error \<Rightarrow> bool" where
  "carries m (Wrap e m') = (m' = m \<or> carries m e)"
| "carries m e = False"

subsection \<open>Contexts, requests, responses\<close>

text \<open>
  A context at the moment the request is made: the background context, which never ends,
  or a derived one whose flag says whether it was cancelled, or whether its deadline has
  passed.
\<close>

datatype ctx = Background | WithCancel bool | WithDeadline bool

fun ctx_Err :: "ctx \<Rightarrow> error option" where
  "ctx_Err Background = None"
| "ctx_Err (WithCancel c) = (if c then Some Canceled else None)"
| "ctx_Err (WithDeadline d) = (if d then Some DeadlineExceeded else None)"

text \<open>
  The header of a request is its list of lines, name and value. \<open>Header_Add\<close> appends a
  line, \<open>Header_Set\<close> replaces the lines of that name by one. (Go stores the names in
  canonical MIME form; header names do not distinguish case, and they are kept here as
  the source writes them.)
\<close>

type_synonym header = "(string \<times> string) list"

definition Header_Add :: "string \<Rightarrow> string \<Rightarrow> header \<Rightarrow> header" where
  "Header_Add k v h = h @ [(k, v)]"

definition Header_Set :: "string \<Rightarrow> string \<Rightarrow> header \<Rightarrow> header" where
  "Header_Set k v h = filter (\<lambda>l. fst l \<noteq> k) h @ [(k, v)]"

definition Header_Values :: "string \<Rightarrow> header \<Rightarrow> string list" where
  "Header_Values k h = map snd (filter (\<lambda>l. fst l = k) h)"

text \<open>
  A request: method, parsed URL (of the library's URL type \<open>'u\<close>), header, the payload that
  is its body, and the context it was made with.
\<close>

record 'u request =
  Method :: string
  URL :: "'u"
  Header :: header
  Payload :: string
  Ctx :: ctx

text \<open>
  A response body is a stream that is read once and has to be closed: \<open>unread\<close> is what
  is still to be read, \<open>fault\<close> the error the reader ends with (if any) in place of the
  end of the stream, \<open>closed\<close> whether \<open>Close\<close> was called.
\<close>

record body =
  unread :: string
  fault :: "error option"
  closed :: bool

record response =
  StatusCode :: int
  Body :: body

text \<open>\<open>ioutil.ReadAll\<close>: everything up to the end of the stream or the first error.\<close>

definition ReadAll :: "body \<Rightarrow> (string \<times> error option) \<times> body" where
  "ReadAll b =
     (if closed b then (([], Some (Foreign ''http: read on closed response body'')), b)
      else ((unread b, fault b), b\<lparr>unread := []\<rparr>))"

definition Close :: "body \<Rightarrow> body" where
  "Close b = b\<lparr>closed := True\<rparr>"

text \<open>\<open>encoding/base64\<close>, the standard alphabet with padding, as \<open>SetBasicAuth\<close> uses it.\<close>

definition b64_char :: "nat \<Rightarrow> char" where
  "b64_char i =
     ''ABCDEFGHIJKLMNOPQRSTUVWXYZabcdefghijklmnopqrstuvwxyz0123456789+/'' ! (i mod 64)"

fun b64_bytes :: "nat list \<Rightarrow> string" where
  "b64_bytes (a # b # c # rest) =
     [b64_char (a div 4), b64_char ((a mod 4) * 16 + b div 16),
      b64_char ((b mod 16) * 4 + c div 64), b64_char (c mod 64)] @ b64_bytes rest"
| "b64_bytes [a, b] =
     [b64_char (a div 4), b64_char ((a mod 4) * 16 + b div 16),
      b64_char ((b mod 16) * 4), CHR ''='']"
| "b64_bytes [a] = [b64_char (a div 4), b64_char ((a mod 4) * 16), CHR ''='', CHR ''='']"
| "b64_bytes [] = []"

definition base64 :: "string \<Rightarrow> string" where
  "base64 s = b64_bytes (map of_char s)"

definition SetBasicAuth :: "string \<Rightarrow> string \<Rightarrow> 'u request \<Rightarrow> 'u request" where
  "SetBasicAuth username password req =
     req\<lparr>Header := Header_Set ''Authorization''
                     (''Basic '' @ base64 (username @ '':'' @ password)) (Header req)\<rparr>"

subsection \<open>The libraries the client calls\<close>

text \<open>
  What the client takes from outside the package, as parameters: \<open>url.Parse\<close> and
  \<open>URL.String\<close>, the \<open>Do\<close> of the default \<open>http.Client\<close> (the transport: it answers a
  request with a response or with an error), and the YAML codec for a rule group (type
  \<open>'g\<close>) and for the rule set that a listing returns (type \<open>'m\<close>).
\<close>

record ('u, 'g, 'm) libs =
  url_Parse :: "string \<Rightarrow> error + 'u"
  url_String :: "'u \<Rightarrow> string"
  http_Do :: "'u request \<Rightarrow> error + response"
  yaml_Marshal :: "'g \<Rightarrow> error + string"
  yaml_Unmarshal_RuleGroup :: "string \<Rightarrow> error + 'g"
  yaml_Unmarshal_RuleSet :: "string \<Rightarrow> error + 'm"

text \<open>
  \<open>http.NewRequest(method, url, body)\<close> is \<open>NewRequestWithContext\<close> with the background
  context: it parses the URL and returns the parser's error unchanged. The three methods
  the client passes (POST, DELETE, GET) are literals that the library accepts.
\<close>

definition NewRequest ::
  "('u, 'g, 'm) libs \<Rightarrow> string \<Rightarrow> string \<Rightarrow> string \<Rightarrow> error + 'u request" where
  "NewRequest L method' urlStr payload =
     (case url_Parse L urlStr of
        Inl err \<Rightarrow> Inl err
      | Inr u \<Rightarrow>
          Inr \<lparr>Method = method', URL = u, Header = [], Payload = payload, Ctx = Background\<rparr>)"

subsection \<open>Config, RulerClient, New\<close>

record Config =
  Key :: string
  Address :: string
  ID :: string

text \<open>
  The field \<open>id\<close> of the source is \<open>id'\<close> here. The field \<open>client\<close>, an \<open>http.Client\<close>,
  is its \<open>Do\<close>.
\<close>

record 'u RulerClient =
  key :: string
  id' :: string
  endpoint :: "'u"
  client :: "'u request \<Rightarrow> error + response"

definition New :: "('u, 'g, 'm) libs \<Rightarrow> Config \<Rightarrow> error + 'u RulerClient" where
  "New L cfg =
     (case url_Parse L (Address cfg) of
        Inl err \<Rightarrow> Inl err
      | Inr endpoint' \<Rightarrow>
          Inr \<lparr>key = Key cfg, id' = ID cfg, endpoint = endpoint', client = http_Do L\<rparr>)"

subsection \<open>What an operation does to the outside\<close>

text \<open>
  An operation returns its result together with its effects: the requests it handed to
  the transport, in order, and the responses it got from the transport, each in the state
  in which the operation leaves it when it lets go of it. (The calls to the logger are
  left out, and with them the message that \<open>checkResponse\<close> formats for the logger only.)
\<close>

record 'u effects =
  sent :: "'u request list"
  responses :: "response list"

definition no_effects :: "'u effects" where
  "no_effects = \<lparr>sent = [], responses = []\<rparr>"

text \<open>The end of a function that ran \<open>defer res.Body.Close()\<close>.\<close>

definition deferred_Close :: "response \<Rightarrow> 'u effects \<Rightarrow> 'u effects" where
  "deferred_Close res fx = fx\<lparr>responses := responses fx @ [res\<lparr>Body := Close (Body res)\<rparr>]\<rparr>"

subsection \<open>checkResponse and doRequest\<close>

definition checkResponse :: "response \<Rightarrow> error option \<times> response" where
  "checkResponse r =
     (if 200 \<le> StatusCode r \<and> StatusCode r \<le> 299 then (None, r)
      else
        (case ReadAll (Body r) of
           ((data, err), b) \<Rightarrow>
             (if StatusCode r = 404 then (Some ErrResourceNotFound, r\<lparr>Body := b\<rparr>)
              else (Some (errors_New ''failed request to the ruler api''), r\<lparr>Body := b\<rparr>))))"

definition doRequest ::
  "('u, 'g, 'm) libs \<Rightarrow> 'u RulerClient \<Rightarrow> string \<Rightarrow> string \<Rightarrow> string
     \<Rightarrow> (error + response) \<times> 'u effects" where
  "doRequest L r path method' payload =
     (case NewRequest L method' (url_String L (endpoint r) @ path) payload of
        Inl err \<Rightarrow> (Inl err, no_effects)
      | Inr req0 \<Rightarrow>
          (let req1 = (if key r \<noteq> [] then SetBasicAuth (id' r) (key r) req0 else req0);
               req = req1\<lparr>Header := Header_Add ''X-Scope-OrgID'' (id' r) (Header req1)\<rparr>
           in case client r req of
                Inl err \<Rightarrow> (Inl err, \<lparr>sent = [req], responses = []\<rparr>)
              | Inr resp \<Rightarrow>
                  (case checkResponse resp of
                     (Some err, resp') \<Rightarrow> (Inl err, \<lparr>sent = [req], responses = [resp']\<rparr>)
                   | (None, resp') \<Rightarrow> (Inr resp', \<lparr>sent = [req], responses = []\<rparr>))))"

subsection \<open>The four operations\<close>

definition CreateRuleGroup ::
  "('u, 'g, 'm) libs \<Rightarrow> 'u RulerClient \<Rightarrow> ctx \<Rightarrow> string \<Rightarrow> 'g \<Rightarrow> error option \<times> 'u effects" where
  "CreateRuleGroup L r c namespace rg =
     (case yaml_Marshal L rg of
        Inl err \<Rightarrow> (Some err, no_effects)
      | Inr payload \<Rightarrow>
          (case doRequest L r (''/api/prom/rules/'' @ namespace) ''POST'' payload of
             (Inl err, fx) \<Rightarrow> (Some err, fx)
           | (Inr res, fx) \<Rightarrow>
               (case checkResponse res of
                  (Some err, res') \<Rightarrow> (Some err, deferred_Close res' fx)
                | (None, res') \<Rightarrow> (None, deferred_Close res' fx))))"

text \<open>
  Go's \<open>%\<close> takes the sign of the dividend: it is \<open>smod\<close>. The parameter \<open>groupName\<close> is not
  used by the source.
\<close>

definition DeleteRuleGroup ::
  "('u, 'g, 'm) libs \<Rightarrow> 'u RulerClient \<Rightarrow> ctx \<Rightarrow> string \<Rightarrow> string \<Rightarrow> error option \<times> 'u effects" where
  "DeleteRuleGroup L r c namespace groupName =
     (case doRequest L r (''/api/prom/rules/'' @ namespace) ''DELETE'' [] of
        (Inl err, fx) \<Rightarrow> (Some err, fx)
      | (Inr res, fx) \<Rightarrow>
          (case checkResponse res of
             (Some err, res') \<Rightarrow> (Some err, deferred_Close res' fx)
           | (None, res') \<Rightarrow>
               (case ReadAll (Body res') of
                  ((data, Some err), b) \<Rightarrow> (Some err, deferred_Close (res'\<lparr>Body := b\<rparr>) fx)
                | ((data, None), b) \<Rightarrow>
                    (if StatusCode res' smod 2 > 0
                     then (Some (errors_New (''error occured, '' @ data)),
                           deferred_Close (res'\<lparr>Body := b\<rparr>) fx)
                     else (None, deferred_Close (res'\<lparr>Body := b\<rparr>) fx)))))"

definition GetRuleGroup ::
  "('u, 'g, 'm) libs \<Rightarrow> 'u RulerClient \<Rightarrow> ctx \<Rightarrow> string \<Rightarrow> string \<Rightarrow> (error + 'g) \<times> 'u effects" where
  "GetRuleGroup L r c namespace groupName =
     (case doRequest L r (''/api/prom/rules/'' @ namespace @ ''/'' @ groupName) ''GET'' [] of
        (Inl err, fx) \<Rightarrow> (Inl (Wrap err ''failed to perform request''), fx)
      | (Inr res, fx) \<Rightarrow>
          (case checkResponse res of
             (Some err, res') \<Rightarrow> (Inl err, deferred_Close res' fx)
           | (None, res') \<Rightarrow>
               (case ReadAll (Body res') of
                  ((data, Some err), b) \<Rightarrow> (Inl err, deferred_Close (res'\<lparr>Body := b\<rparr>) fx)
                | ((data, None), b) \<Rightarrow>
                    (case yaml_Unmarshal_RuleGroup L data of
                       Inl err \<Rightarrow>
                         (Inl (Wrap err ''unable to unmarshal response''),
                          deferred_Close (res'\<lparr>Body := b\<rparr>) fx)
                     | Inr rg \<Rightarrow> (Inr rg, deferred_Close (res'\<lparr>Body := b\<rparr>) fx)))))"

definition ListRules ::
  "('u, 'g, 'm) libs \<Rightarrow> 'u RulerClient \<Rightarrow> ctx \<Rightarrow> string \<Rightarrow> (error + 'm) \<times> 'u effects" where
  "ListRules L r c namespace =
     (let path = (if namespace \<noteq> [] then ''/api/prom/rules'' @ ''/'' @ namespace
                  else ''/api/prom/rules'')
      in case doRequest L r path ''GET'' [] of
           (Inl err, fx) \<Rightarrow> (Inl err, fx)
         | (Inr res, fx) \<Rightarrow>
             (case checkResponse res of
                (Some err, res') \<Rightarrow> (Inl err, deferred_Close res' fx)
              | (None, res') \<Rightarrow>
                  (case ReadAll (Body res') of
                     ((data, Some err), b) \<Rightarrow> (Inl err, deferred_Close (res'\<lparr>Body := b\<rparr>) fx)
                   | ((data, None), b) \<Rightarrow>
                       (case yaml_Unmarshal_RuleSet L data of
                          Inl err \<Rightarrow> (Inl err, deferred_Close (res'\<lparr>Body := b\<rparr>) fx)
                        | Inr ruleSet \<Rightarrow> (Inr ruleSet, deferred_Close (res'\<lparr>Body := b\<rparr>) fx)))))"

subsection \<open>Scenarios\<close>

text \<open>
  Concrete libraries for the scenarios below. URLs are kept as their text: for the
  addresses of the scenarios, \<open>http://r.example/\<close> and what the client appends to it,
  \<open>url.Parse\<close> followed by \<open>URL.String\<close> gives the text back unchanged. A rule group and
  a rule set are their YAML text, so the codec copies it; the one text it refuses is an
  unclosed flow mapping.
\<close>

definition yaml_text :: "string \<Rightarrow> error + string" where
  "yaml_text b =
     (if b = ''{'' then Inl (Foreign ''yaml: line 1: did not find expected node content'')
      else Inr b)"

definition scenario_libs :: "(string request \<Rightarrow> error + response) \<Rightarrow> (string, string, string) libs" where
  "scenario_libs transport =
     \<lparr>url_Parse = Inr, url_String = (\<lambda>u. u), http_Do = transport, yaml_Marshal = Inr,
      yaml_Unmarshal_RuleGroup = yaml_text, yaml_Unmarshal_RuleSet = yaml_text\<rparr>"

text \<open>A server that answers every request with one status and one body text.\<close>

definition answers :: "int \<Rightarrow> string \<Rightarrow> string request \<Rightarrow> error + response" where
  "answers status txt req =
     Inr \<lparr>StatusCode = status, Body = \<lparr>unread = txt, fault = None, closed = False\<rparr>\<rparr>"

text \<open>A transport that cannot connect.\<close>

definition refuses :: "string request \<Rightarrow> error + response" where
  "refuses req = Inl (Foreign ''dial tcp: connect: connection refused'')"

text \<open>
  A transport that looks at the context of the request, as Go's does: a request whose
  context has ended fails with the context's error.
\<close>

definition honouring ::
  "(string request \<Rightarrow> error + response) \<Rightarrow> string request \<Rightarrow> error + response" where
  "honouring transport req =
     (case ctx_Err (Ctx req) of Some e \<Rightarrow> Inl e | None \<Rightarrow> transport req)"

definition example_cfg :: Config where
  "example_cfg = \<lparr>Key = ''s3cr3t'', Address = ''http://r.example/'', ID = ''t1''\<rparr>"

definition example_client :: "(string request \<Rightarrow> error + response) \<Rightarrow> string RulerClient" where
  "example_client transport =
     \<lparr>key = ''s3cr3t'', id' = ''t1'', endpoint = ''http://r.example/'', client = transport\<rparr>"

text \<open>The same libraries with a codec that cannot encode a rule group.\<close>

definition failing_Marshal :: "(string, string, string) libs \<Rightarrow> (string, string, string) libs" where
  "failing_Marshal L = L\<lparr>yaml_Marshal := (\<lambda>g. Inl (Foreign ''yaml: cannot marshal''))\<rparr>"

section \<open>The ring lifecycle of the alertmanager (pkg/alertmanager/lifecycle.go)\<close>

datatype InstanceState = ACTIVE | LEAVING | PENDING | JOINING | LEFT

text \<open>Of an instance descriptor, the two fields the join policy is about.\<close>

record InstanceDesc =
  State :: InstanceState
  Tokens :: "32 word list"

record Desc =
  Ingesters :: "(string \<times> InstanceDesc) list"

text \<open>
  Modelled from the spec: \<open>Desc.TokensFor\<close> of the ring library, which is not among the
  sources. "The descriptor query returns owned tokens and taken tokens": the tokens of the
  entry with this id, and the tokens of every entry.
\<close>

definition TokensFor :: "Desc \<Rightarrow> string \<Rightarrow> 32 word list \<times> 32 word list" where
  "TokensFor d ident =
     ((case map_of (Ingesters d) ident of None \<Rightarrow> [] | Some i \<Rightarrow> Tokens i),
      concat (map (\<lambda>e. Tokens (snd e)) (Ingesters d)))"

text \<open>
  Modelled from the spec: \<open>ring.GenerateTokens\<close> of the ring library, which is not among
  the sources. "Generate [that many] fresh tokens, disjoint from the taken set, via a
  uniform random token generator": the generator draws candidates and keeps a candidate
  that is neither taken nor already kept, until it has the number asked for. The draws of
  the random source are the list \<open>rnd\<close>; \<open>None\<close> says that the generator has used up the
  draws and is still drawing. No token is generated for a number that is not positive.
\<close>

fun draw_fresh :: "nat \<Rightarrow> 32 word list \<Rightarrow> 32 word list \<Rightarrow> 32 word list option" where
  "draw_fresh 0 used rnd = Some []"
| "draw_fresh (Suc n) used [] = None"
| "draw_fresh (Suc n) used (candidate # rnd) =
     (if candidate \<in> set used then draw_fresh (Suc n) used rnd
      else map_option ((#) candidate) (draw_fresh n (candidate # used) rnd))"

definition GenerateTokens :: "32 word list \<Rightarrow> int \<Rightarrow> 32 word list \<Rightarrow> 32 word list option" where
  "GenerateTokens rnd numTokens takenTokens =
     (if numTokens \<le> 0 then Some [] else draw_fresh (nat numTokens) takenTokens rnd)"

text \<open>
  \<open>RingNumTokens\<close> is a constant of the package that is declared in another file: it is
  the first parameter. The second is the random source. The lifecycler, which the source
  does not use, is left out.
\<close>

definition OnRingInstanceRegister ::
  "int \<Rightarrow> 32 word list \<Rightarrow> Desc \<Rightarrow> bool \<Rightarrow> string \<Rightarrow> InstanceDesc
     \<Rightarrow> (InstanceState \<times> 32 word list) option" where
  "OnRingInstanceRegister RingNumTokens rnd ringDesc instanceExists instanceID instanceDesc =
     (let tokens = (if instanceExists then Tokens instanceDesc else []);
          takenTokens = snd (TokensFor ringDesc instanceID)
      in case GenerateTokens rnd (RingNumTokens - int (length tokens)) takenTokens of
           None \<Rightarrow> None
         | Some newTokens \<Rightarrow> Some (JOINING, tokens @ newTokens))"

section \<open>Properties of the ruler client\<close>

lemma checkResponse_ok:
  "200 \<le> StatusCode r \<Longrightarrow> StatusCode r \<le> 299 \<Longrightarrow> checkResponse r = (None, r)"
  by (simp add: checkResponse_def)

text \<open>
  A request that \<open>doRequest\<close> hands to the transport is its only one, and is built from
  the client alone: the URL parsed from the endpoint's text followed by the path, the
  method and payload it was given, the background context, and the header lines.
\<close>

lemma doRequest_sent:
  assumes "req \<in> set (sent (snd (doRequest L r path m payload)))"
  shows "sent (snd (doRequest L r path m payload)) = [req]"
    and "url_Parse L (url_String L (endpoint r) @ path) = Inr (URL req)"
    and "Method req = m" and "Payload req = payload" and "Ctx req = Background"
    and "Header req =
           (if key r \<noteq> [] then [(''Authorization'', ''Basic '' @ base64 (id' r @ '':'' @ key r))]
            else []) @ [(''X-Scope-OrgID'', id' r)]"
  using assms
  by (auto simp: doRequest_def NewRequest_def no_effects_def Let_def SetBasicAuth_def
        Header_Set_def Header_Add_def split: sum.splits prod.splits option.splits if_splits)

lemma doRequest_result:
  assumes "req \<in> set (sent (snd (doRequest L r path m payload)))"
  shows "doRequest L r path m payload =
           (case client r req of
              Inl e \<Rightarrow> (Inl e, \<lparr>sent = [req], responses = []\<rparr>)
            | Inr resp \<Rightarrow>
                (case checkResponse resp of
                   (Some e, resp') \<Rightarrow> (Inl e, \<lparr>sent = [req], responses = [resp']\<rparr>)
                 | (None, resp') \<Rightarrow> (Inr resp', \<lparr>sent = [req], responses = []\<rparr>)))"
  using assms
  by (auto simp: doRequest_def NewRequest_def no_effects_def Let_def
        split: sum.splits prod.splits option.splits if_splits)

lemma sent_deferred_Close: "sent (deferred_Close res fx) = sent fx"
  by (simp add: deferred_Close_def)

lemma sent_CreateRuleGroup:
  "req \<in> set (sent (snd (CreateRuleGroup L r c ns rg))) \<Longrightarrow>
   \<exists>payload. yaml_Marshal L rg = Inr payload \<and>
     req \<in> set (sent (snd (doRequest L r (''/api/prom/rules/'' @ ns) ''POST'' payload)))"
  by (auto simp: CreateRuleGroup_def no_effects_def sent_deferred_Close
        split: sum.splits prod.splits option.splits)

lemma sent_DeleteRuleGroup:
  "sent (snd (DeleteRuleGroup L r c ns gn)) =
   sent (snd (doRequest L r (''/api/prom/rules/'' @ ns) ''DELETE'' []))"
  by (auto simp: DeleteRuleGroup_def sent_deferred_Close
        split: sum.splits prod.splits option.splits)

lemma sent_GetRuleGroup:
  "sent (snd (GetRuleGroup L r c ns gn)) =
   sent (snd (doRequest L r (''/api/prom/rules/'' @ ns @ ''/'' @ gn) ''GET'' []))"
  by (auto simp: GetRuleGroup_def sent_deferred_Close
        split: sum.splits prod.splits option.splits)

lemma sent_ListRules:
  "sent (snd (ListRules L r c ns)) =
   sent (snd (doRequest L r (if ns \<noteq> [] then ''/api/prom/rules'' @ ''/'' @ ns else ''/api/prom/rules'') ''GET'' []))"
  by (auto simp: ListRules_def Let_def sent_deferred_Close
        split: sum.splits prod.splits option.splits)

lemma New_fields:
  "New L cfg = Inr r \<Longrightarrow> key r = Key cfg \<and> id' r = ID cfg \<and> client r = http_Do L
     \<and> url_Parse L (Address cfg) = Inr (endpoint r)"
  by (auto simp: New_def split: sum.splits)

lemma scenario_New:
  "New (scenario_libs t) example_cfg = Inr (example_client t)"
  by (simp add: New_def scenario_libs_def example_cfg_def example_client_def)

lemma scenario_Create:
  "CreateRuleGroup (scenario_libs (answers 204 [])) (example_client (answers 204 []))
      c ''alerts'' ''name: g1'' =
   (None,
  \<lparr>sent =
     [\<lparr>Method = ''POST'', URL = ''http://r.example//api/prom/rules/alerts'',
         Header =
           [(''Authorization'', ''Basic dDE6czNjcjN0''),
            (''X-Scope-OrgID'', ''t1'')],
         Payload = ''name: g1'', Ctx = Background\<rparr>],
     responses =
       [\<lparr>StatusCode = 204,
           Body = \<lparr>unread = [], fault = None, closed = True\<rparr>\<rparr>]\<rparr>)"
  by (simp add: CreateRuleGroup_def doRequest_def NewRequest_def scenario_libs_def
      example_client_def answers_def checkResponse_def deferred_Close_def Close_def
      SetBasicAuth_def Header_Set_def Header_Add_def base64_def b64_char_def)

lemmas run_defs =
  CreateRuleGroup_def DeleteRuleGroup_def GetRuleGroup_def ListRules_def doRequest_def
  NewRequest_def scenario_libs_def example_client_def answers_def refuses_def honouring_def
  checkResponse_def deferred_Close_def Close_def ReadAll_def SetBasicAuth_def Header_Set_def
  Header_Add_def base64_def b64_char_def yaml_text_def no_effects_def

text \<open>What an operation returns once the transport has answered the request.\<close>

lemma CreateRuleGroup_result:
  assumes "req \<in> set (sent (snd (CreateRuleGroup L r c ns rg)))"
  shows "fst (CreateRuleGroup L r c ns rg) =
           (case client r req of Inl e \<Rightarrow> Some e | Inr resp \<Rightarrow> fst (checkResponse resp))"
proof -
  from sent_CreateRuleGroup [OF assms] obtain payload where
    m: "yaml_Marshal L rg = Inr payload" and
    s: "req \<in> set (sent (snd (doRequest L r (''/api/prom/rules/'' @ ns) ''POST'' payload)))"
    by blast
  show ?thesis
    unfolding CreateRuleGroup_def m sum.case doRequest_result [OF s]
    by (auto simp: checkResponse_def split: sum.splits prod.splits option.splits if_splits)
qed

lemma DeleteRuleGroup_result:
  assumes "req \<in> set (sent (snd (DeleteRuleGroup L r c ns gn)))"
  shows "fst (DeleteRuleGroup L r c ns gn) =
           (case client r req of
              Inl e \<Rightarrow> Some e
            | Inr resp \<Rightarrow>
                (case fst (checkResponse resp) of
                   Some e \<Rightarrow> Some e
                 | None \<Rightarrow>
                     (case fst (ReadAll (Body resp)) of
                        (data, Some e) \<Rightarrow> Some e
                      | (data, None) \<Rightarrow>
                          if StatusCode resp smod 2 > 0
                          then Some (errors_New (''error occured, '' @ data)) else None)))"
proof -
  from assms have
    s: "req \<in> set (sent (snd (doRequest L r (''/api/prom/rules/'' @ ns) ''DELETE'' [])))"
    by (simp add: sent_DeleteRuleGroup)
  show ?thesis
    unfolding DeleteRuleGroup_def doRequest_result [OF s]
    by (auto simp: checkResponse_def split: sum.splits prod.splits option.splits if_splits)
qed

lemma GetRuleGroup_result:
  assumes "req \<in> set (sent (snd (GetRuleGroup L r c ns gn)))"
  shows "fst (GetRuleGroup L r c ns gn) =
           (case client r req of
              Inl e \<Rightarrow> Inl (Wrap e ''failed to perform request'')
            | Inr resp \<Rightarrow>
                (case fst (checkResponse resp) of
                   Some e \<Rightarrow> Inl (Wrap e ''failed to perform request'')
                 | None \<Rightarrow>
                     (case fst (ReadAll (Body resp)) of
                        (data, Some e) \<Rightarrow> Inl e
                      | (data, None) \<Rightarrow>
                          (case yaml_Unmarshal_RuleGroup L data of
                             Inl e \<Rightarrow> Inl (Wrap e ''unable to unmarshal response'')
                           | Inr rg \<Rightarrow> Inr rg))))"
proof -
  from assms have
    s: "req \<in> set (sent (snd (doRequest L r (''/api/prom/rules/'' @ ns @ ''/'' @ gn) ''GET'' [])))"
    by (simp add: sent_GetRuleGroup)
  show ?thesis
    unfolding GetRuleGroup_def doRequest_result [OF s]
    by (auto simp: checkResponse_def split: sum.splits prod.splits option.splits if_splits)
qed

lemma ListRules_result:
  assumes "req \<in> set (sent (snd (ListRules L r c ns)))"
  shows "fst (ListRules L r c ns) =
           (case client r req of
              Inl e \<Rightarrow> Inl e
            | Inr resp \<Rightarrow>
                (case fst (checkResponse resp) of
                   Some e \<Rightarrow> Inl e
                 | None \<Rightarrow>
                     (case fst (ReadAll (Body resp)) of
                        (data, Some e) \<Rightarrow> Inl e
                      | (data, None) \<Rightarrow> yaml_Unmarshal_RuleSet L data)))"
proof -
  from assms have
    s: "req \<in> set (sent (snd (doRequest L r
          (if ns \<noteq> [] then ''/api/prom/rules'' @ ''/'' @ ns else ''/api/prom/rules'') ''GET'' [])))"
    by (simp add: sent_ListRules)
  show ?thesis
    unfolding ListRules_def Let_def doRequest_result [OF s]
    by (auto simp: checkResponse_def split: sum.splits prod.splits option.splits if_splits)
qed

subsection \<open>Cancellation\<close>

text \<open>
  C1 (as amended). Every operation takes a context and does not use it: its result and its
  effects are the same for any two contexts, and every request it hands to the transport
  was made by \<open>http.NewRequest\<close> and carries the background context, not the caller's.
\<close>

theorem context_not_used:
  "CreateRuleGroup L r c ns rg = CreateRuleGroup L r c' ns rg
   \<and> DeleteRuleGroup L r c ns gn = DeleteRuleGroup L r c' ns gn
   \<and> GetRuleGroup L r c ns gn = GetRuleGroup L r c' ns gn
   \<and> ListRules L r c ns = ListRules L r c' ns
   \<and> (\<forall>req \<in> set (sent (snd (CreateRuleGroup L r c ns rg)))
               \<union> set (sent (snd (DeleteRuleGroup L r c ns gn)))
               \<union> set (sent (snd (GetRuleGroup L r c ns gn)))
               \<union> set (sent (snd (ListRules L r c ns))). Ctx req = Background)"
proof -
  have "Ctx req = Background"
    if "req \<in> set (sent (snd (CreateRuleGroup L r c ns rg)))
               \<union> set (sent (snd (DeleteRuleGroup L r c ns gn)))
               \<union> set (sent (snd (GetRuleGroup L r c ns gn)))
               \<union> set (sent (snd (ListRules L r c ns)))" for req
  proof -
    from that obtain path m payload where "req \<in> set (sent (snd (doRequest L r path m payload)))"
      by (auto simp: sent_DeleteRuleGroup sent_GetRuleGroup sent_ListRules
            dest: sent_CreateRuleGroup)
    then show ?thesis by (rule doRequest_sent)
  qed
  then show ?thesis
    by (simp add: CreateRuleGroup_def DeleteRuleGroup_def GetRuleGroup_def ListRules_def)
qed

theorem context_not_used_witness:
  "CreateRuleGroup (scenario_libs (honouring (answers 204 [])))
       (example_client (honouring (answers 204 []))) (WithCancel True) ''alerts'' ''name: g1'' =
   CreateRuleGroup (scenario_libs (honouring (answers 204 [])))
       (example_client (honouring (answers 204 []))) Background ''alerts'' ''name: g1''
   \<and> map Ctx (sent (snd (CreateRuleGroup (scenario_libs (honouring (answers 204 [])))
       (example_client (honouring (answers 204 []))) (WithCancel True) ''alerts'' ''name: g1''))) =
     [Background]"
proof -
  let ?L = "scenario_libs (honouring (answers 204 []))"
  let ?r = "example_client (honouring (answers 204 []))"
  have s: "length (sent (snd (CreateRuleGroup ?L ?r (WithCancel True) ''alerts'' ''name: g1''))) = 1"
    by (simp add: run_defs)
  from context_not_used [of ?L ?r "WithCancel True" "''alerts''" "''name: g1''" Background "''g1''"] s
  show ?thesis
    by (auto simp: length_Suc_conv)
qed

text \<open>
  C1 as stated fails. With a transport that fails a request whose context has ended, an
  operation called with a cancelled context (or one past its deadline) hands over a
  request with the background context and returns success, not a cancellation error.
\<close>

theorem context_propagated_counterexample:
  "ctx_Err (WithCancel True) = Some Canceled
   \<and> map Ctx (sent (snd (CreateRuleGroup (scenario_libs (honouring (answers 204 [])))
       (example_client (honouring (answers 204 []))) (WithCancel True) ''alerts'' ''name: g1''))) =
     [Background]
   \<and> fst (CreateRuleGroup (scenario_libs (honouring (answers 204 [])))
       (example_client (honouring (answers 204 []))) (WithCancel True) ''alerts'' ''name: g1'') = None
   \<and> fst (DeleteRuleGroup (scenario_libs (honouring (answers 204 [])))
       (example_client (honouring (answers 204 []))) (WithCancel True) ''alerts'' ''g1'') = None
   \<and> fst (GetRuleGroup (scenario_libs (honouring (answers 200 ''name: g1'')))
       (example_client (honouring (answers 200 ''name: g1''))) (WithCancel True) ''alerts'' ''g1'')
       = Inr ''name: g1''
   \<and> fst (ListRules (scenario_libs (honouring (answers 200 ''alerts: {}'')))
       (example_client (honouring (answers 200 ''alerts: {}''))) (WithDeadline True) ''alerts'')
       = Inr ''alerts: {}''"
  by (simp add: run_defs)

subsection \<open>Tenant header and basic auth\<close>

text \<open>
  Once the URL parses, \<open>doRequest\<close> hands one request to the transport, whatever the
  transport then answers; \<open>CreateRuleGroup\<close> gets that far when the rule group encodes.
\<close>

lemma doRequest_sends:
  assumes "url_Parse L (url_String L (endpoint r) @ path) = Inr u"
  shows "\<exists>req. sent (snd (doRequest L r path m payload)) = [req]"
  using assms
  by (auto simp: doRequest_def NewRequest_def Let_def
        split: sum.splits prod.splits option.splits)

lemma sent_CreateRuleGroup_eq:
  "yaml_Marshal L rg = Inr payload \<Longrightarrow>
   sent (snd (CreateRuleGroup L r c ns rg)) =
   sent (snd (doRequest L r (''/api/prom/rules/'' @ ns) ''POST'' payload))"
  by (auto simp: CreateRuleGroup_def sent_deferred_Close
        split: sum.splits prod.splits option.splits)

text \<open>
  C6. For every configuration from which a client is made, and every operation: each
  request handed to the transport has exactly one \<open>X-Scope-OrgID\<close> line, whose value is the
  configuration's id, and it has an \<open>Authorization\<close> line, the basic-auth encoding of id and
  key, if and only if the key is not empty. And each operation does hand such a request to
  the transport, exactly one, once its URL parses (and, for \<open>CreateRuleGroup\<close>, the rule
  group encodes).
\<close>

theorem tenant_header_and_basic_auth:
  assumes "New L cfg = Inr r"
  shows "(\<forall>req \<in> set (sent (snd (CreateRuleGroup L r c ns rg)))
               \<union> set (sent (snd (DeleteRuleGroup L r c ns gn)))
               \<union> set (sent (snd (GetRuleGroup L r c ns gn)))
               \<union> set (sent (snd (ListRules L r c ns))).
           Header_Values ''X-Scope-OrgID'' (Header req) = [ID cfg]
         \<and> Header_Values ''Authorization'' (Header req) =
             (if Key cfg \<noteq> [] then [''Basic '' @ base64 (ID cfg @ '':'' @ Key cfg)] else []))
       \<and> (yaml_Marshal L rg = Inr payload
            \<and> url_Parse L (url_String L (endpoint r) @ ''/api/prom/rules/'' @ ns) = Inr u1
          \<longrightarrow> (\<exists>req. sent (snd (CreateRuleGroup L r c ns rg)) = [req]
                 \<and> Header_Values ''X-Scope-OrgID'' (Header req) = [ID cfg]
                 \<and> Header_Values ''Authorization'' (Header req) =
                     (if Key cfg \<noteq> [] then [''Basic '' @ base64 (ID cfg @ '':'' @ Key cfg)]
                      else [])))
       \<and> (url_Parse L (url_String L (endpoint r) @ ''/api/prom/rules/'' @ ns) = Inr u1
          \<longrightarrow> (\<exists>req. sent (snd (DeleteRuleGroup L r c ns gn)) = [req]
                 \<and> Header_Values ''X-Scope-OrgID'' (Header req) = [ID cfg]
                 \<and> Header_Values ''Authorization'' (Header req) =
                     (if Key cfg \<noteq> [] then [''Basic '' @ base64 (ID cfg @ '':'' @ Key cfg)]
                      else [])))
       \<and> (url_Parse L (url_String L (endpoint r) @ ''/api/prom/rules/'' @ ns @ ''/'' @ gn)
             = Inr u2
          \<longrightarrow> (\<exists>req. sent (snd (GetRuleGroup L r c ns gn)) = [req]
                 \<and> Header_Values ''X-Scope-OrgID'' (Header req) = [ID cfg]
                 \<and> Header_Values ''Authorization'' (Header req) =
                     (if Key cfg \<noteq> [] then [''Basic '' @ base64 (ID cfg @ '':'' @ Key cfg)]
                      else [])))
       \<and> (url_Parse L (url_String L (endpoint r)
               @ (if ns \<noteq> [] then ''/api/prom/rules'' @ ''/'' @ ns else ''/api/prom/rules''))
             = Inr u3
          \<longrightarrow> (\<exists>req. sent (snd (ListRules L r c ns)) = [req]
                 \<and> Header_Values ''X-Scope-OrgID'' (Header req) = [ID cfg]
                 \<and> Header_Values ''Authorization'' (Header req) =
                     (if Key cfg \<noteq> [] then [''Basic '' @ base64 (ID cfg @ '':'' @ Key cfg)]
                      else [])))"
proof -
  let ?H = "\<lambda>req. Header_Values ''X-Scope-OrgID'' (Header req) = [ID cfg]
         \<and> Header_Values ''Authorization'' (Header req) =
             (if Key cfg \<noteq> [] then [''Basic '' @ base64 (ID cfg @ '':'' @ Key cfg)] else [])"
  have h: "?H req" if "req \<in> set (sent (snd (doRequest L r path m pl)))" for req path m pl
  proof -
    from that have "Header req =
           (if key r \<noteq> [] then [(''Authorization'', ''Basic '' @ base64 (id' r @ '':'' @ key r))]
            else []) @ [(''X-Scope-OrgID'', id' r)]"
      by (rule doRequest_sent)
    with New_fields [OF assms] show ?thesis
      by (simp add: Header_Values_def)
  qed
  have one: "\<exists>req. sent (snd (doRequest L r path m pl)) = [req] \<and> ?H req"
    if "url_Parse L (url_String L (endpoint r) @ path) = Inr u" for path m pl u
  proof -
    from doRequest_sends [OF that] obtain req where
      s: "sent (snd (doRequest L r path m pl)) = [req]"
      by blast
    then have "req \<in> set (sent (snd (doRequest L r path m pl)))"
      by simp
    from h [OF this] s show ?thesis
      by blast
  qed
  have bound: "\<forall>req \<in> set (sent (snd (CreateRuleGroup L r c ns rg)))
               \<union> set (sent (snd (DeleteRuleGroup L r c ns gn)))
               \<union> set (sent (snd (GetRuleGroup L r c ns gn)))
               \<union> set (sent (snd (ListRules L r c ns))). ?H req"
  proof
    fix req
    assume "req \<in> set (sent (snd (CreateRuleGroup L r c ns rg)))
               \<union> set (sent (snd (DeleteRuleGroup L r c ns gn)))
               \<union> set (sent (snd (GetRuleGroup L r c ns gn)))
               \<union> set (sent (snd (ListRules L r c ns)))"
    then obtain path m pl where "req \<in> set (sent (snd (doRequest L r path m pl)))"
      by (auto simp: sent_DeleteRuleGroup sent_GetRuleGroup sent_ListRules
            dest: sent_CreateRuleGroup)
    then show "?H req"
      by (rule h)
  qed
  have create: "\<exists>req. sent (snd (CreateRuleGroup L r c ns rg)) = [req] \<and> ?H req"
    if "yaml_Marshal L rg = Inr payload"
      and "url_Parse L (url_String L (endpoint r) @ ''/api/prom/rules/'' @ ns) = Inr u1"
    unfolding sent_CreateRuleGroup_eq [OF that(1)] using that(2) by (rule one)
  have delete: "\<exists>req. sent (snd (DeleteRuleGroup L r c ns gn)) = [req] \<and> ?H req"
    if "url_Parse L (url_String L (endpoint r) @ ''/api/prom/rules/'' @ ns) = Inr u1"
    unfolding sent_DeleteRuleGroup using that by (rule one)
  have get: "\<exists>req. sent (snd (GetRuleGroup L r c ns gn)) = [req] \<and> ?H req"
    if "url_Parse L (url_String L (endpoint r) @ ''/api/prom/rules/'' @ ns @ ''/'' @ gn) = Inr u2"
    unfolding sent_GetRuleGroup using that by (rule one)
  have list: "\<exists>req. sent (snd (ListRules L r c ns)) = [req] \<and> ?H req"
    if "url_Parse L (url_String L (endpoint r)
               @ (if ns \<noteq> [] then ''/api/prom/rules'' @ ''/'' @ ns else ''/api/prom/rules''))
             = Inr u3"
    unfolding sent_ListRules using that by (rule one)
  from bound create delete get list show ?thesis
    by blast
qed

theorem tenant_header_and_basic_auth_witness:
  "New (scenario_libs (answers 200 ''name: g1'')) example_cfg
     = Inr (example_client (answers 200 ''name: g1''))
   \<and> (\<exists>req. sent (snd (CreateRuleGroup (scenario_libs (answers 200 ''name: g1''))
           (example_client (answers 200 ''name: g1'')) Background ''alerts'' ''name: g1'')) = [req]
        \<and> Header_Values ''X-Scope-OrgID'' (Header req) = [''t1'']
        \<and> Header_Values ''Authorization'' (Header req) = [''Basic dDE6czNjcjN0''])
   \<and> (\<exists>req. sent (snd (DeleteRuleGroup (scenario_libs (answers 200 ''name: g1''))
           (example_client (answers 200 ''name: g1'')) Background ''alerts'' ''g1'')) = [req]
        \<and> Header_Values ''X-Scope-OrgID'' (Header req) = [''t1'']
        \<and> Header_Values ''Authorization'' (Header req) = [''Basic dDE6czNjcjN0''])
   \<and> (\<exists>req. sent (snd (GetRuleGroup (scenario_libs (answers 200 ''name: g1''))
           (example_client (answers 200 ''name: g1'')) Background ''alerts'' ''g1'')) = [req]
        \<and> Header_Values ''X-Scope-OrgID'' (Header req) = [''t1'']
        \<and> Header_Values ''Authorization'' (Header req) = [''Basic dDE6czNjcjN0''])
   \<and> (\<exists>req. sent (snd (ListRules (scenario_libs (answers 200 ''name: g1''))
           (example_client (answers 200 ''name: g1'')) Background ''alerts'')) = [req]
        \<and> Header_Values ''X-Scope-OrgID'' (Header req) = [''t1'']
        \<and> Header_Values ''Authorization'' (Header req) = [''Basic dDE6czNjcjN0''])
   \<and> New (scenario_libs (answers 200 ''name: g1'')) (example_cfg\<lparr>Key := []\<rparr>)
     = Inr ((example_client (answers 200 ''name: g1''))\<lparr>key := []\<rparr>)
   \<and> (\<exists>req. sent (snd (GetRuleGroup (scenario_libs (answers 200 ''name: g1''))
           ((example_client (answers 200 ''name: g1''))\<lparr>key := []\<rparr>)
           Background ''alerts'' ''g1'')) = [req]
        \<and> Header_Values ''X-Scope-OrgID'' (Header req) = [''t1'']
        \<and> Header_Values ''Authorization'' (Header req) = [])"
proof -
  let ?L = "scenario_libs (answers 200 ''name: g1'')"
  let ?r = "example_client (answers 200 ''name: g1'')"
  let ?r' = "?r\<lparr>key := []\<rparr>"
  let ?u1 = "''http://r.example//api/prom/rules/alerts''"
  let ?u2 = "''http://r.example//api/prom/rules/alerts/g1''"
  have n: "New ?L example_cfg = Inr ?r"
    by (rule scenario_New)
  have n': "New ?L (example_cfg\<lparr>Key := []\<rparr>) = Inr ?r'"
    by (simp add: New_def scenario_libs_def example_cfg_def example_client_def)
  have m: "yaml_Marshal ?L ''name: g1'' = Inr ''name: g1''"
    by (simp add: scenario_libs_def)
  have p1: "url_Parse ?L (url_String ?L (endpoint ?r) @ ''/api/prom/rules/'' @ ''alerts'') = Inr ?u1"
    and p2: "url_Parse ?L (url_String ?L (endpoint ?r) @ ''/api/prom/rules/'' @ ''alerts'' @ ''/'' @ ''g1'')
      = Inr ?u2"
    and p3: "url_Parse ?L (url_String ?L (endpoint ?r)
        @ (if ''alerts'' \<noteq> [] then ''/api/prom/rules'' @ ''/'' @ ''alerts'' else ''/api/prom/rules''))
      = Inr ?u1"
    and p2': "url_Parse ?L (url_String ?L (endpoint ?r') @ ''/api/prom/rules/'' @ ''alerts'' @ ''/'' @ ''g1'')
      = Inr ?u2"
    by (simp_all add: scenario_libs_def example_client_def)
  note t = tenant_header_and_basic_auth [OF n, of Background "''alerts''" "''name: g1''" "''g1''"
      "''name: g1''" ?u1 ?u2 ?u1]
  note t' = tenant_header_and_basic_auth [OF n', of Background "''alerts''" "''name: g1''" "''g1''"
      "''name: g1''" ?u1 ?u2 ?u1]
  have v: "ID example_cfg = ''t1''" "Key example_cfg = ''s3cr3t''"
    "ID (example_cfg\<lparr>Key := []\<rparr>) = ''t1''" "Key (example_cfg\<lparr>Key := []\<rparr>) = []"
    "base64 (''t1'' @ '':'' @ ''s3cr3t'') = ''dDE6czNjcjN0''"
    by (simp_all add: example_cfg_def base64_def b64_char_def)
  have c: "\<exists>req. sent (snd (CreateRuleGroup ?L ?r Background ''alerts'' ''name: g1'')) = [req]
        \<and> Header_Values ''X-Scope-OrgID'' (Header req) = [''t1'']
        \<and> Header_Values ''Authorization'' (Header req) = [''Basic dDE6czNjcjN0'']"
    using t m p1 unfolding v by simp
  have d: "\<exists>req. sent (snd (DeleteRuleGroup ?L ?r Background ''alerts'' ''g1'')) = [req]
        \<and> Header_Values ''X-Scope-OrgID'' (Header req) = [''t1'']
        \<and> Header_Values ''Authorization'' (Header req) = [''Basic dDE6czNjcjN0'']"
    using t p1 unfolding v by simp
  have g: "\<exists>req. sent (snd (GetRuleGroup ?L ?r Background ''alerts'' ''g1'')) = [req]
        \<and> Header_Values ''X-Scope-OrgID'' (Header req) = [''t1'']
        \<and> Header_Values ''Authorization'' (Header req) = [''Basic dDE6czNjcjN0'']"
    using t p2 unfolding v by simp
  have l: "\<exists>req. sent (snd (ListRules ?L ?r Background ''alerts'')) = [req]
        \<and> Header_Values ''X-Scope-OrgID'' (Header req) = [''t1'']
        \<and> Header_Values ''Authorization'' (Header req) = [''Basic dDE6czNjcjN0'']"
    using t p3 unfolding v by simp
  have g': "\<exists>req. sent (snd (GetRuleGroup ?L ?r' Background ''alerts'' ''g1'')) = [req]
        \<and> Header_Values ''X-Scope-OrgID'' (Header req) = [''t1'']
        \<and> Header_Values ''Authorization'' (Header req) = []"
    using t' p2' unfolding v by simp
  from n n' c d g l g' show ?thesis
    by (simp only: simp_thms)
qed

subsection \<open>Transport errors\<close>

text \<open>Two runs of the scenario client against a transport that cannot connect.\<close>

lemma scenario_refused:
  "CreateRuleGroup (scenario_libs refuses) (example_client refuses) c ''alerts'' ''name: g1'' =
     (Some (Foreign ''dial tcp: connect: connection refused''),
      \<lparr>sent = [\<lparr>Method = ''POST'', URL = ''http://r.example//api/prom/rules/alerts'',
         Header = [(''Authorization'', ''Basic dDE6czNjcjN0''), (''X-Scope-OrgID'', ''t1'')],
         Payload = ''name: g1'', Ctx = Background\<rparr>], responses = []\<rparr>)"
  "GetRuleGroup (scenario_libs refuses) (example_client refuses) c ''alerts'' ''g1'' =
     (Inl (Wrap (Foreign ''dial tcp: connect: connection refused'') ''failed to perform request''),
      \<lparr>sent = [\<lparr>Method = ''GET'', URL = ''http://r.example//api/prom/rules/alerts/g1'',
         Header = [(''Authorization'', ''Basic dDE6czNjcjN0''), (''X-Scope-OrgID'', ''t1'')],
         Payload = [], Ctx = Background\<rparr>], responses = []\<rparr>)"
  by (simp_all add: run_defs)

text \<open>
  C2 (as amended). When the transport fails on the request of an operation, with the error
  \<open>e\<close>, then \<open>CreateRuleGroup\<close>, \<open>DeleteRuleGroup\<close> and \<open>ListRules\<close> return \<open>e\<close> itself, and
  \<open>GetRuleGroup\<close> returns \<open>e\<close> wrapped with the message "failed to perform request".
\<close>

theorem transport_error_returned:
  assumes "client r req = Inl e"
  shows "(req \<in> set (sent (snd (CreateRuleGroup L r c ns rg)))
            \<longrightarrow> fst (CreateRuleGroup L r c ns rg) = Some e)
       \<and> (req \<in> set (sent (snd (DeleteRuleGroup L r c ns gn)))
            \<longrightarrow> fst (DeleteRuleGroup L r c ns gn) = Some e)
       \<and> (req \<in> set (sent (snd (ListRules L r c ns)))
            \<longrightarrow> fst (ListRules L r c ns) = Inl e)
       \<and> (req \<in> set (sent (snd (GetRuleGroup L r c ns gn)))
            \<longrightarrow> fst (GetRuleGroup L r c ns gn) = Inl (Wrap e ''failed to perform request''))"
  using assms
  by (simp add: CreateRuleGroup_result DeleteRuleGroup_result GetRuleGroup_result
        ListRules_result)

theorem transport_error_returned_witness:
  "client (example_client refuses)
      \<lparr>Method = ''POST'', URL = ''http://r.example//api/prom/rules/alerts'',
         Header = [(''Authorization'', ''Basic dDE6czNjcjN0''), (''X-Scope-OrgID'', ''t1'')],
         Payload = ''name: g1'', Ctx = Background\<rparr>
     = Inl (Foreign ''dial tcp: connect: connection refused'')
   \<and> sent (snd (CreateRuleGroup (scenario_libs refuses) (example_client refuses) Background
         ''alerts'' ''name: g1'')) =
      [\<lparr>Method = ''POST'', URL = ''http://r.example//api/prom/rules/alerts'',
         Header = [(''Authorization'', ''Basic dDE6czNjcjN0''), (''X-Scope-OrgID'', ''t1'')],
         Payload = ''name: g1'', Ctx = Background\<rparr>]
   \<and> fst (CreateRuleGroup (scenario_libs refuses) (example_client refuses) Background
         ''alerts'' ''name: g1'') = Some (Foreign ''dial tcp: connect: connection refused'')"
proof -
  let ?q = "\<lparr>Method = ''POST'', URL = ''http://r.example//api/prom/rules/alerts'',
         Header = [(''Authorization'', ''Basic dDE6czNjcjN0''), (''X-Scope-OrgID'', ''t1'')],
         Payload = ''name: g1'', Ctx = Background\<rparr>"
  have c: "client (example_client refuses) ?q = Inl (Foreign ''dial tcp: connect: connection refused'')"
    by (simp add: example_client_def refuses_def)
  have s: "sent (snd (CreateRuleGroup (scenario_libs refuses) (example_client refuses) Background
         ''alerts'' ''name: g1'')) = [?q]"
    by (simp add: scenario_refused)
  from transport_error_returned [OF c, of "scenario_libs refuses" Background "''alerts''" "''name: g1''" "''g1''"]
  have "fst (CreateRuleGroup (scenario_libs refuses) (example_client refuses) Background
         ''alerts'' ''name: g1'') = Some (Foreign ''dial tcp: connect: connection refused'')"
    by (simp only: s list.set insert_iff simp_thms)
  with c s show ?thesis
    by (simp only: simp_thms)
qed

text \<open>
  C2 as stated fails for \<open>GetRuleGroup\<close>: against a transport that refuses the connection
  it returns the transport's error wrapped, which is another error value.
\<close>

theorem transport_error_unwrapped_counterexample:
  "refuses \<lparr>Method = ''GET'', URL = ''http://r.example//api/prom/rules/alerts/g1'',
         Header = [(''Authorization'', ''Basic dDE6czNjcjN0''), (''X-Scope-OrgID'', ''t1'')],
         Payload = [], Ctx = Background\<rparr>
     = Inl (Foreign ''dial tcp: connect: connection refused'')
   \<and> sent (snd (GetRuleGroup (scenario_libs refuses) (example_client refuses) Background
         ''alerts'' ''g1'')) =
      [\<lparr>Method = ''GET'', URL = ''http://r.example//api/prom/rules/alerts/g1'',
         Header = [(''Authorization'', ''Basic dDE6czNjcjN0''), (''X-Scope-OrgID'', ''t1'')],
         Payload = [], Ctx = Background\<rparr>]
   \<and> fst (GetRuleGroup (scenario_libs refuses) (example_client refuses) Background
         ''alerts'' ''g1'') =
       Inl (Wrap (Foreign ''dial tcp: connect: connection refused'') ''failed to perform request'')
   \<and> fst (GetRuleGroup (scenario_libs refuses) (example_client refuses) Background
         ''alerts'' ''g1'') \<noteq> Inl (Foreign ''dial tcp: connect: connection refused'')"
  by (simp add: scenario_refused refuses_def)

subsection \<open>The status 404\<close>

text \<open>The four operations of the scenario client against a server that answers 404.\<close>

lemma scenario_404:
  "DeleteRuleGroup (scenario_libs (answers 404 ''not found'')) (example_client (answers 404 ''not found''))
      c ''alerts'' ''g1'' =
     (Some ErrResourceNotFound,
      \<lparr>sent = [\<lparr>Method = ''DELETE'', URL = ''http://r.example//api/prom/rules/alerts'',
         Header = [(''Authorization'', ''Basic dDE6czNjcjN0''), (''X-Scope-OrgID'', ''t1'')],
         Payload = [], Ctx = Background\<rparr>],
       responses = [\<lparr>StatusCode = 404, Body = \<lparr>unread = [], fault = None, closed = False\<rparr>\<rparr>]\<rparr>)"
  "GetRuleGroup (scenario_libs (answers 404 ''not found'')) (example_client (answers 404 ''not found''))
      c ''alerts'' ''gX'' =
     (Inl (Wrap ErrResourceNotFound ''failed to perform request''),
      \<lparr>sent = [\<lparr>Method = ''GET'', URL = ''http://r.example//api/prom/rules/alerts/gX'',
         Header = [(''Authorization'', ''Basic dDE6czNjcjN0''), (''X-Scope-OrgID'', ''t1'')],
         Payload = [], Ctx = Background\<rparr>],
       responses = [\<lparr>StatusCode = 404, Body = \<lparr>unread = [], fault = None, closed = False\<rparr>\<rparr>]\<rparr>)"
  "CreateRuleGroup (scenario_libs (answers 404 ''not found'')) (example_client (answers 404 ''not found''))
      c ''alerts'' ''name: g1'' =
     (Some ErrResourceNotFound,
      \<lparr>sent = [\<lparr>Method = ''POST'', URL = ''http://r.example//api/prom/rules/alerts'',
         Header = [(''Authorization'', ''Basic dDE6czNjcjN0''), (''X-Scope-OrgID'', ''t1'')],
         Payload = ''name: g1'', Ctx = Background\<rparr>],
       responses = [\<lparr>StatusCode = 404, Body = \<lparr>unread = [], fault = None, closed = False\<rparr>\<rparr>]\<rparr>)"
  "ListRules (scenario_libs (answers 404 ''not found'')) (example_client (answers 404 ''not found''))
      c ''alerts'' =
     (Inl ErrResourceNotFound,
      \<lparr>sent = [\<lparr>Method = ''GET'', URL = ''http://r.example//api/prom/rules/alerts'',
         Header = [(''Authorization'', ''Basic dDE6czNjcjN0''), (''X-Scope-OrgID'', ''t1'')],
         Payload = [], Ctx = Background\<rparr>],
       responses = [\<lparr>StatusCode = 404, Body = \<lparr>unread = [], fault = None, closed = False\<rparr>\<rparr>]\<rparr>)"
  by (simp_all add: run_defs)

text \<open>
  C5 (as amended). When the server answers the request of an operation with the status
  404, then \<open>CreateRuleGroup\<close>, \<open>DeleteRuleGroup\<close> and \<open>ListRules\<close> return exactly the
  sentinel \<open>ErrResourceNotFound\<close>, and \<open>GetRuleGroup\<close> returns the sentinel wrapped with the
  message "failed to perform request".
\<close>

theorem not_found_returned:
  assumes "client r req = Inr resp" and "StatusCode resp = 404"
  shows "(req \<in> set (sent (snd (CreateRuleGroup L r c ns rg)))
            \<longrightarrow> fst (CreateRuleGroup L r c ns rg) = Some ErrResourceNotFound)
       \<and> (req \<in> set (sent (snd (DeleteRuleGroup L r c ns gn)))
            \<longrightarrow> fst (DeleteRuleGroup L r c ns gn) = Some ErrResourceNotFound)
       \<and> (req \<in> set (sent (snd (ListRules L r c ns)))
            \<longrightarrow> fst (ListRules L r c ns) = Inl ErrResourceNotFound)
       \<and> (req \<in> set (sent (snd (GetRuleGroup L r c ns gn)))
            \<longrightarrow> fst (GetRuleGroup L r c ns gn) =
                Inl (Wrap ErrResourceNotFound ''failed to perform request''))"
  using assms
  by (simp add: CreateRuleGroup_result DeleteRuleGroup_result GetRuleGroup_result
        ListRules_result checkResponse_def split: prod.splits)

theorem not_found_returned_witness:
  "client (example_client (answers 404 ''not found''))
      \<lparr>Method = ''DELETE'', URL = ''http://r.example//api/prom/rules/alerts'',
         Header = [(''Authorization'', ''Basic dDE6czNjcjN0''), (''X-Scope-OrgID'', ''t1'')],
         Payload = [], Ctx = Background\<rparr>
     = Inr \<lparr>StatusCode = 404, Body = \<lparr>unread = ''not found'', fault = None, closed = False\<rparr>\<rparr>
   \<and> sent (snd (DeleteRuleGroup (scenario_libs (answers 404 ''not found''))
         (example_client (answers 404 ''not found'')) Background ''alerts'' ''g1'')) =
      [\<lparr>Method = ''DELETE'', URL = ''http://r.example//api/prom/rules/alerts'',
         Header = [(''Authorization'', ''Basic dDE6czNjcjN0''), (''X-Scope-OrgID'', ''t1'')],
         Payload = [], Ctx = Background\<rparr>]
   \<and> fst (DeleteRuleGroup (scenario_libs (answers 404 ''not found''))
         (example_client (answers 404 ''not found'')) Background ''alerts'' ''g1'')
       = Some ErrResourceNotFound"
proof -
  let ?t = "answers 404 ''not found''"
  let ?q = "\<lparr>Method = ''DELETE'', URL = ''http://r.example//api/prom/rules/alerts'',
         Header = [(''Authorization'', ''Basic dDE6czNjcjN0''), (''X-Scope-OrgID'', ''t1'')],
         Payload = [], Ctx = Background\<rparr>"
  let ?resp = "\<lparr>StatusCode = 404, Body = \<lparr>unread = ''not found'', fault = None, closed = False\<rparr>\<rparr>"
  have c: "client (example_client ?t) ?q = Inr ?resp"
    by (simp add: example_client_def answers_def)
  have st: "StatusCode ?resp = 404"
    by simp
  have s: "sent (snd (DeleteRuleGroup (scenario_libs ?t) (example_client ?t) Background
         ''alerts'' ''g1'')) = [?q]"
    by (simp add: scenario_404)
  from not_found_returned [OF c st, of "scenario_libs ?t" Background "''alerts''" "''name: g1''" "''g1''"]
  have "fst (DeleteRuleGroup (scenario_libs ?t) (example_client ?t) Background
         ''alerts'' ''g1'') = Some ErrResourceNotFound"
    by (simp only: s list.set insert_iff simp_thms)
  with c s show ?thesis
    by (simp only: simp_thms)
qed

text \<open>
  C5 as stated fails for \<open>GetRuleGroup\<close>: on a 404 its error is the wrapped sentinel, which
  is not the sentinel.
\<close>

theorem not_found_exactly_counterexample:
  "answers 404 ''not found''
      \<lparr>Method = ''GET'', URL = ''http://r.example//api/prom/rules/alerts/gX'',
         Header = [(''Authorization'', ''Basic dDE6czNjcjN0''), (''X-Scope-OrgID'', ''t1'')],
         Payload = [], Ctx = Background\<rparr>
     = Inr \<lparr>StatusCode = 404, Body = \<lparr>unread = ''not found'', fault = None, closed = False\<rparr>\<rparr>
   \<and> sent (snd (GetRuleGroup (scenario_libs (answers 404 ''not found''))
         (example_client (answers 404 ''not found'')) Background ''alerts'' ''gX'')) =
      [\<lparr>Method = ''GET'', URL = ''http://r.example//api/prom/rules/alerts/gX'',
         Header = [(''Authorization'', ''Basic dDE6czNjcjN0''), (''X-Scope-OrgID'', ''t1'')],
         Payload = [], Ctx = Background\<rparr>]
   \<and> fst (GetRuleGroup (scenario_libs (answers 404 ''not found''))
         (example_client (answers 404 ''not found'')) Background ''alerts'' ''gX'')
       = Inl (Wrap ErrResourceNotFound ''failed to perform request'')
   \<and> fst (GetRuleGroup (scenario_libs (answers 404 ''not found''))
         (example_client (answers 404 ''not found'')) Background ''alerts'' ''gX'')
       \<noteq> Inl ErrResourceNotFound"
  by (simp add: scenario_404 answers_def)

subsection \<open>Closing the response body\<close>

text \<open>
  C3 does not hold of the code. When the server answers 404 (or 500), \<open>doRequest\<close> returns
  the error of \<open>checkResponse\<close> and no response, so the operation returns before its
  \<open>defer res.Body.Close()\<close> and the one response that the transport gave is left with its
  body open, in each of the four operations. After a 204 the body is closed.
\<close>

theorem body_left_open_on_failure:
  "map (\<lambda>res. closed (Body res))
     (responses (snd (CreateRuleGroup (scenario_libs (answers 404 ''not found''))
        (example_client (answers 404 ''not found'')) Background ''alerts'' ''name: g1''))) = [False]
   \<and> map (\<lambda>res. closed (Body res))
     (responses (snd (DeleteRuleGroup (scenario_libs (answers 404 ''not found''))
        (example_client (answers 404 ''not found'')) Background ''alerts'' ''g1''))) = [False]
   \<and> map (\<lambda>res. closed (Body res))
     (responses (snd (GetRuleGroup (scenario_libs (answers 404 ''not found''))
        (example_client (answers 404 ''not found'')) Background ''alerts'' ''gX''))) = [False]
   \<and> map (\<lambda>res. closed (Body res))
     (responses (snd (ListRules (scenario_libs (answers 404 ''not found''))
        (example_client (answers 404 ''not found'')) Background ''alerts''))) = [False]
   \<and> map (\<lambda>res. closed (Body res))
     (responses (snd (ListRules (scenario_libs (answers 500 ''boom''))
        (example_client (answers 500 ''boom'')) Background ''alerts''))) = [False]
   \<and> map (\<lambda>res. closed (Body res))
     (responses (snd (CreateRuleGroup (scenario_libs (answers 204 []))
        (example_client (answers 204 [])) Background ''alerts'' ''name: g1''))) = [True]"
  by (simp add: scenario_404 scenario_Create) (simp add: run_defs)

subsection \<open>The parity check of DeleteRuleGroup\<close>

lemma smod_2_pos: "0 \<le> k \<Longrightarrow> (k smod 2 > 0) = odd k" for k :: int
  by (auto simp: signed_modulo_int_def odd_iff_mod_2_eq_one sgn_if)

text \<open>\<open>DeleteRuleGroup\<close> of the scenario client against a server that answers 201, and 200.\<close>

lemma scenario_Delete:
  "DeleteRuleGroup (scenario_libs (answers 201 ''created'')) (example_client (answers 201 ''created''))
      c ''alerts'' ''g1'' =
     (Some (errors_New ''error occured, created''),
      \<lparr>sent = [\<lparr>Method = ''DELETE'', URL = ''http://r.example//api/prom/rules/alerts'',
         Header = [(''Authorization'', ''Basic dDE6czNjcjN0''), (''X-Scope-OrgID'', ''t1'')],
         Payload = [], Ctx = Background\<rparr>],
       responses = [\<lparr>StatusCode = 201, Body = \<lparr>unread = [], fault = None, closed = True\<rparr>\<rparr>]\<rparr>)"
  "DeleteRuleGroup (scenario_libs (answers 200 ''ok'')) (example_client (answers 200 ''ok''))
      c ''alerts'' ''g1'' =
     (None,
      \<lparr>sent = [\<lparr>Method = ''DELETE'', URL = ''http://r.example//api/prom/rules/alerts'',
         Header = [(''Authorization'', ''Basic dDE6czNjcjN0''), (''X-Scope-OrgID'', ''t1'')],
         Payload = [], Ctx = Background\<rparr>],
       responses = [\<lparr>StatusCode = 200, Body = \<lparr>unread = [], fault = None, closed = True\<rparr>\<rparr>]\<rparr>)"
  by (simp_all add: run_defs signed_modulo_int_def)

text \<open>
  C4 (as amended). The check \<open>res.StatusCode % 2 > 0\<close> of \<open>DeleteRuleGroup\<close> is not dead. For
  a response that \<open>checkResponse\<close> accepts (status 200 to 299) and whose body is read without
  an error, the branch is taken exactly when the status is odd: then \<open>DeleteRuleGroup\<close>
  returns the error "error occured, " followed by the body, and for an even status it
  returns no error.
\<close>

theorem parity_check_taken_on_odd_status:
  assumes "req \<in> set (sent (snd (DeleteRuleGroup L r c ns gn)))"
    and "client r req = Inr resp"
    and "200 \<le> StatusCode resp" and "StatusCode resp \<le> 299"
  shows "fst (checkResponse resp) = None
       \<and> fst (DeleteRuleGroup L r c ns gn) =
           (case fst (ReadAll (Body resp)) of
              (data, Some e) \<Rightarrow> Some e
            | (data, None) \<Rightarrow>
                if odd (StatusCode resp) then Some (errors_New (''error occured, '' @ data))
                else None)"
  using assms
  by (simp add: DeleteRuleGroup_result checkResponse_ok smod_2_pos split: prod.splits option.splits)

theorem parity_check_taken_on_odd_status_witness:
  "sent (snd (DeleteRuleGroup (scenario_libs (answers 203 ''cached'')) (example_client (answers 203 ''cached''))
      Background ''alerts'' ''g1'')) =
     [\<lparr>Method = ''DELETE'', URL = ''http://r.example//api/prom/rules/alerts'',
         Header = [(''Authorization'', ''Basic dDE6czNjcjN0''), (''X-Scope-OrgID'', ''t1'')],
         Payload = [], Ctx = Background\<rparr>]
   \<and> client (example_client (answers 203 ''cached''))
        \<lparr>Method = ''DELETE'', URL = ''http://r.example//api/prom/rules/alerts'',
         Header = [(''Authorization'', ''Basic dDE6czNjcjN0''), (''X-Scope-OrgID'', ''t1'')],
         Payload = [], Ctx = Background\<rparr> =
       Inr \<lparr>StatusCode = 203, Body = \<lparr>unread = ''cached'', fault = None, closed = False\<rparr>\<rparr>
   \<and> (200::int) \<le> 203 \<and> (203::int) \<le> 299
   \<and> fst (DeleteRuleGroup (scenario_libs (answers 203 ''cached'')) (example_client (answers 203 ''cached''))
      Background ''alerts'' ''g1'') = Some (errors_New ''error occured, cached'')"
proof -
  let ?t = "answers 203 ''cached''"
  let ?q = "\<lparr>Method = ''DELETE'', URL = ''http://r.example//api/prom/rules/alerts'',
         Header = [(''Authorization'', ''Basic dDE6czNjcjN0''), (''X-Scope-OrgID'', ''t1'')],
         Payload = [], Ctx = Background\<rparr>"
  let ?resp = "\<lparr>StatusCode = 203, Body = \<lparr>unread = ''cached'', fault = None, closed = False\<rparr>\<rparr>"
  have s: "sent (snd (DeleteRuleGroup (scenario_libs ?t) (example_client ?t) Background ''alerts'' ''g1'')) = [?q]"
    by (simp add: sent_DeleteRuleGroup) (simp add: run_defs)
  then have m: "?q \<in> set (sent (snd (DeleteRuleGroup (scenario_libs ?t) (example_client ?t) Background ''alerts'' ''g1'')))"
    by simp
  have c: "client (example_client ?t) ?q = Inr ?resp"
    by (simp add: example_client_def answers_def)
  have lo: "200 \<le> StatusCode ?resp" and hi: "StatusCode ?resp \<le> 299"
    by simp_all
  from parity_check_taken_on_odd_status [OF m c lo hi]
  have "fst (DeleteRuleGroup (scenario_libs ?t) (example_client ?t) Background ''alerts'' ''g1'')
          = Some (errors_New ''error occured, cached'')"
    by (simp add: ReadAll_def)
  with s c show ?thesis
    by simp
qed

text \<open>
  C4 as stated fails at the status 201: \<open>checkResponse\<close> accepts the response, the branch is
  taken, and \<open>DeleteRuleGroup\<close> returns its error.
\<close>

theorem parity_check_dead_counterexample:
  "answers 201 ''created''
        \<lparr>Method = ''DELETE'', URL = ''http://r.example//api/prom/rules/alerts'',
         Header = [(''Authorization'', ''Basic dDE6czNjcjN0''), (''X-Scope-OrgID'', ''t1'')],
         Payload = [], Ctx = Background\<rparr> =
       Inr \<lparr>StatusCode = 201, Body = \<lparr>unread = ''created'', fault = None, closed = False\<rparr>\<rparr>
   \<and> checkResponse \<lparr>StatusCode = 201, Body = \<lparr>unread = ''created'', fault = None, closed = False\<rparr>\<rparr>
       = (None, \<lparr>StatusCode = 201, Body = \<lparr>unread = ''created'', fault = None, closed = False\<rparr>\<rparr>)
   \<and> (201::int) smod 2 > 0
   \<and> fst (DeleteRuleGroup (scenario_libs (answers 201 ''created''))
        (example_client (answers 201 ''created'')) Background ''alerts'' ''g1'')
       = Some (errors_New ''error occured, created'')"
  by (simp add: scenario_Delete answers_def checkResponse_def signed_modulo_int_def)

subsection \<open>Codec errors\<close>

text \<open>Runs of the scenario client where the YAML codec fails.\<close>

lemma scenario_codec:
  "GetRuleGroup (scenario_libs (answers 200 ''{'')) (example_client (answers 200 ''{''))
      c ''alerts'' ''g1'' =
     (Inl (Wrap (Foreign ''yaml: line 1: did not find expected node content'')
            ''unable to unmarshal response''),
      \<lparr>sent = [\<lparr>Method = ''GET'', URL = ''http://r.example//api/prom/rules/alerts/g1'',
         Header = [(''Authorization'', ''Basic dDE6czNjcjN0''), (''X-Scope-OrgID'', ''t1'')],
         Payload = [], Ctx = Background\<rparr>],
       responses = [\<lparr>StatusCode = 200, Body = \<lparr>unread = [], fault = None, closed = True\<rparr>\<rparr>]\<rparr>)"
  "ListRules (scenario_libs (answers 200 ''{'')) (example_client (answers 200 ''{''))
      c [] =
     (Inl (Foreign ''yaml: line 1: did not find expected node content''),
      \<lparr>sent = [\<lparr>Method = ''GET'', URL = ''http://r.example//api/prom/rules'',
         Header = [(''Authorization'', ''Basic dDE6czNjcjN0''), (''X-Scope-OrgID'', ''t1'')],
         Payload = [], Ctx = Background\<rparr>],
       responses = [\<lparr>StatusCode = 200, Body = \<lparr>unread = [], fault = None, closed = True\<rparr>\<rparr>]\<rparr>)"
  "CreateRuleGroup (failing_Marshal (scenario_libs (answers 204 []))) (example_client (answers 204 []))
      c ''alerts'' ''name: g1'' = (Some (Foreign ''yaml: cannot marshal''), \<lparr>sent = [], responses = []\<rparr>)"
  by (simp_all add: run_defs failing_Marshal_def)

text \<open>
  C7 (as amended). Of the codec failures, only that of \<open>GetRuleGroup\<close> is wrapped: when the
  response body of \<open>GetRuleGroup\<close> does not decode, the error is returned wrapped with the
  message "unable to unmarshal response". When the rule group of \<open>CreateRuleGroup\<close> does not
  encode, the codec's error is returned as it is and no request is made, and when the
  response body of \<open>ListRules\<close> does not decode, the codec's error is returned as it is.
\<close>

theorem codec_errors:
  "(yaml_Marshal L rg = Inl e1 \<longrightarrow> CreateRuleGroup L r c ns rg = (Some e1, no_effects))
   \<and> (req \<in> set (sent (snd (GetRuleGroup L r c ns gn))) \<and> client r req = Inr resp
        \<and> fst (checkResponse resp) = None \<and> fst (ReadAll (Body resp)) = (data, None)
        \<and> yaml_Unmarshal_RuleGroup L data = Inl e2
       \<longrightarrow> fst (GetRuleGroup L r c ns gn) = Inl (Wrap e2 ''unable to unmarshal response''))
   \<and> (req' \<in> set (sent (snd (ListRules L r c ns))) \<and> client r req' = Inr resp'
        \<and> fst (checkResponse resp') = None \<and> fst (ReadAll (Body resp')) = (data', None)
        \<and> yaml_Unmarshal_RuleSet L data' = Inl e3
       \<longrightarrow> fst (ListRules L r c ns) = Inl e3)"
  by (auto simp: GetRuleGroup_result ListRules_result CreateRuleGroup_def)

theorem codec_errors_witness:
  "yaml_Marshal (failing_Marshal (scenario_libs (answers 200 ''{''))) ''name: g1''
      = Inl (Foreign ''yaml: cannot marshal'')
   \<and> CreateRuleGroup (failing_Marshal (scenario_libs (answers 200 ''{'')))
        (example_client (answers 200 ''{'')) Background ''alerts'' ''name: g1''
      = (Some (Foreign ''yaml: cannot marshal''), no_effects)
   \<and> yaml_Unmarshal_RuleGroup (failing_Marshal (scenario_libs (answers 200 ''{''))) ''{''
      = Inl (Foreign ''yaml: line 1: did not find expected node content'')
   \<and> fst (GetRuleGroup (failing_Marshal (scenario_libs (answers 200 ''{'')))
        (example_client (answers 200 ''{'')) Background ''alerts'' ''g1'')
      = Inl (Wrap (Foreign ''yaml: line 1: did not find expected node content'')
              ''unable to unmarshal response'')
   \<and> yaml_Unmarshal_RuleSet (failing_Marshal (scenario_libs (answers 200 ''{''))) ''{''
      = Inl (Foreign ''yaml: line 1: did not find expected node content'')
   \<and> fst (ListRules (failing_Marshal (scenario_libs (answers 200 ''{'')))
        (example_client (answers 200 ''{'')) Background ''alerts'')
      = Inl (Foreign ''yaml: line 1: did not find expected node content'')"
proof -
  let ?t = "answers 200 ''{''"
  let ?L = "failing_Marshal (scenario_libs ?t)" and ?r = "example_client ?t"
  let ?q = "\<lparr>Method = ''GET'', URL = ''http://r.example//api/prom/rules/alerts/g1'',
         Header = [(''Authorization'', ''Basic dDE6czNjcjN0''), (''X-Scope-OrgID'', ''t1'')],
         Payload = [], Ctx = Background\<rparr>"
  let ?q' = "\<lparr>Method = ''GET'', URL = ''http://r.example//api/prom/rules/alerts'',
         Header = [(''Authorization'', ''Basic dDE6czNjcjN0''), (''X-Scope-OrgID'', ''t1'')],
         Payload = [], Ctx = Background\<rparr>"
  let ?resp = "\<lparr>StatusCode = 200, Body = \<lparr>unread = ''{'', fault = None, closed = False\<rparr>\<rparr>"
  let ?e = "Foreign ''yaml: line 1: did not find expected node content''"
  have m: "yaml_Marshal ?L ''name: g1'' = Inl (Foreign ''yaml: cannot marshal'')"
    by (simp add: failing_Marshal_def)
  have u: "yaml_Unmarshal_RuleGroup ?L ''{'' = Inl ?e" "yaml_Unmarshal_RuleSet ?L ''{'' = Inl ?e"
    by (simp_all add: failing_Marshal_def scenario_libs_def yaml_text_def)
  have s: "?q \<in> set (sent (snd (GetRuleGroup ?L ?r Background ''alerts'' ''g1'')))"
    "?q' \<in> set (sent (snd (ListRules ?L ?r Background ''alerts'')))"
    by (simp_all add: sent_GetRuleGroup sent_ListRules) (simp_all add: run_defs failing_Marshal_def)
  have c: "client ?r ?q = Inr ?resp" "client ?r ?q' = Inr ?resp"
    by (simp_all add: example_client_def answers_def)
  have k: "fst (checkResponse ?resp) = None" "fst (ReadAll (Body ?resp)) = (''{'', None)"
    by (simp_all add: checkResponse_def ReadAll_def)
  note ce = codec_errors [of ?L "''name: g1''" "Foreign ''yaml: cannot marshal''" ?r Background
      "''alerts''" ?q "''g1''" ?resp "''{''" ?e ?q' ?resp "''{''" ?e]
  have 1: "CreateRuleGroup ?L ?r Background ''alerts'' ''name: g1''
      = (Some (Foreign ''yaml: cannot marshal''), no_effects)"
    using ce m by simp
  have 2: "fst (GetRuleGroup ?L ?r Background ''alerts'' ''g1'')
      = Inl (Wrap ?e ''unable to unmarshal response'')"
    using ce u s c k by simp
  have 3: "fst (ListRules ?L ?r Background ''alerts'') = Inl ?e"
    using ce u s c k by simp
  from m u 1 2 3 show ?thesis
    by (simp only: simp_thms)
qed

text \<open>
  C7 as stated fails for \<open>ListRules\<close> and for \<open>CreateRuleGroup\<close>: the error that they return
  on a codec failure carries neither of the two messages.
\<close>

theorem codec_errors_wrapped_counterexample:
  "yaml_text ''{'' = Inl (Foreign ''yaml: line 1: did not find expected node content'')
   \<and> fst (ListRules (scenario_libs (answers 200 ''{'')) (example_client (answers 200 ''{''))
        Background []) = Inl (Foreign ''yaml: line 1: did not find expected node content'')
   \<and> carries ''unable to unmarshal response''
        (Foreign ''yaml: line 1: did not find expected node content'') = False
   \<and> fst (CreateRuleGroup (failing_Marshal (scenario_libs (answers 204 [])))
        (example_client (answers 204 [])) Background ''alerts'' ''name: g1'')
      = Some (Foreign ''yaml: cannot marshal'')
   \<and> carries ''failed to perform request'' (Foreign ''yaml: cannot marshal'') = False"
  by (simp add: scenario_codec yaml_text_def)

subsection \<open>The URL of a request\<close>

text \<open>
  C8 (as amended). For the configuration with the address \<open>http://r.example/\<close>, whose parsed
  form prints as it was written, \<open>CreateRuleGroup("alerts", g)\<close> hands exactly one request to
  the transport. It is a POST, and its URL is parsed from the base followed by the path,
  which is \<open>http://r.example//api/prom/rules/alerts\<close>: the slash that ends the base is kept
  before the slash that starts the path.
\<close>

theorem create_url_keeps_double_slash:
  assumes "New L cfg = Inr r" and "Address cfg = ''http://r.example/''"
    and "url_String L (endpoint r) = Address cfg"
    and "yaml_Marshal L rg = Inr payload"
    and "url_Parse L ''http://r.example//api/prom/rules/alerts'' = Inr u"
  shows "\<exists>req. sent (snd (CreateRuleGroup L r c ''alerts'' rg)) = [req]
           \<and> Method req = ''POST'' \<and> URL req = u \<and> Payload req = payload"
  using assms
  by (auto simp: CreateRuleGroup_def doRequest_def NewRequest_def Let_def sent_deferred_Close
        SetBasicAuth_def split: sum.splits prod.splits option.splits)

theorem create_url_keeps_double_slash_witness:
  "New (scenario_libs (answers 204 [])) example_cfg = Inr (example_client (answers 204 []))
   \<and> Address example_cfg = ''http://r.example/''
   \<and> url_String (scenario_libs (answers 204 [])) (endpoint (example_client (answers 204 [])))
       = Address example_cfg
   \<and> yaml_Marshal (scenario_libs (answers 204 [])) ''name: g1'' = Inr ''name: g1''
   \<and> url_Parse (scenario_libs (answers 204 [])) ''http://r.example//api/prom/rules/alerts''
       = Inr ''http://r.example//api/prom/rules/alerts''
   \<and> (\<exists>req. sent (snd (CreateRuleGroup (scenario_libs (answers 204 []))
           (example_client (answers 204 [])) Background ''alerts'' ''name: g1'')) = [req]
           \<and> Method req = ''POST'' \<and> URL req = ''http://r.example//api/prom/rules/alerts''
           \<and> Payload req = ''name: g1'')"
proof -
  let ?L = "scenario_libs (answers 204 [])" and ?r = "example_client (answers 204 [])"
  have n: "New ?L example_cfg = Inr ?r"
    by (rule scenario_New)
  have a: "Address example_cfg = ''http://r.example/''"
    by (simp add: example_cfg_def)
  have e: "url_String ?L (endpoint ?r) = Address example_cfg"
    by (simp add: example_cfg_def scenario_libs_def example_client_def)
  have m: "yaml_Marshal ?L ''name: g1'' = Inr ''name: g1''"
    by (simp add: scenario_libs_def)
  have u: "url_Parse ?L ''http://r.example//api/prom/rules/alerts''
       = Inr ''http://r.example//api/prom/rules/alerts''"
    by (simp add: scenario_libs_def)
  from create_url_keeps_double_slash [OF n a e m u, of Background] n a e m u
  show ?thesis
    by (simp only: simp_thms)
qed

text \<open>
  C8 as stated fails: the URL of the one request is not
  \<open>http://r.example/api/prom/rules/alerts\<close>.
\<close>

theorem create_url_counterexample:
  "New (scenario_libs (answers 204 [])) example_cfg = Inr (example_client (answers 204 []))
   \<and> map (\<lambda>req. (Method req, url_String (scenario_libs (answers 204 [])) (URL req)))
       (sent (snd (CreateRuleGroup (scenario_libs (answers 204 []))
           (example_client (answers 204 [])) Background ''alerts'' ''name: g1'')))
      = [(''POST'', ''http://r.example//api/prom/rules/alerts'')]
   \<and> ''http://r.example//api/prom/rules/alerts'' \<noteq> ''http://r.example/api/prom/rules/alerts''"
  by (simp add: scenario_New scenario_Create) (simp add: scenario_libs_def)

section \<open>Properties of the ring join policy\<close>

text \<open>
  What the generator returns, when it returns: as many tokens as asked for (none for a
  number that is not positive), all different, none of them taken, all of them drawn.
\<close>

lemma draw_fresh_Some:
  "draw_fresh n used rnd = Some ts \<Longrightarrow>
   length ts = n \<and> distinct ts \<and> set ts \<inter> set used = {} \<and> set ts \<subseteq> set rnd"
proof (induction n used rnd arbitrary: ts rule: draw_fresh.induct)
  case (1 used rnd)
  then show ?case by simp
next
  case (2 n used)
  then show ?case by simp
next
  case (3 n used candidate rnd)
  show ?case
  proof (cases "candidate \<in> set used")
    case True
    with 3 show ?thesis by auto
  next
    case False
    with "3.prems" obtain ts' where
      d: "draw_fresh n (candidate # used) rnd = Some ts'" and t: "ts = candidate # ts'"
      by auto
    from "3.IH"(2) [OF False d] False t show ?thesis
      by auto
  qed
qed

text \<open>
  The generator returns as soon as the draws hold enough different tokens that are not
  taken.
\<close>

lemma draw_fresh_returns:
  "n \<le> card (set rnd - set used) \<Longrightarrow> \<exists>ts. draw_fresh n used rnd = Some ts"
proof (induction n used rnd rule: draw_fresh.induct)
  case (1 used rnd)
  then show ?case by simp
next
  case (2 n used)
  then show ?case by simp
next
  case (3 n used candidate rnd)
  show ?case
  proof (cases "candidate \<in> set used")
    case True
    then have "set (candidate # rnd) - set used = set rnd - set used"
      by auto
    with 3 True show ?thesis by simp
  next
    case False
    have "set (candidate # rnd) - set used = insert candidate (set rnd - set (candidate # used))"
      using False by auto
    then have "card (set (candidate # rnd) - set used) \<le> Suc (card (set rnd - set (candidate # used)))"
      by (simp add: card_insert_if)
    with "3.prems" have "n \<le> card (set rnd - set (candidate # used))"
      by simp
    from "3.IH"(2) [OF False this] False show ?thesis
      by auto
  qed
qed

lemma GenerateTokens_returns:
  assumes "numTokens \<le> int (card (set rnd - set takenTokens))"
  shows "\<exists>ts. GenerateTokens rnd numTokens takenTokens = Some ts"
proof (cases "numTokens \<le> 0")
  case True
  then show ?thesis by (simp add: GenerateTokens_def)
next
  case False
  with assms have "nat numTokens \<le> card (set rnd - set takenTokens)"
    by simp
  from draw_fresh_returns [OF this] False show ?thesis
    by (simp add: GenerateTokens_def)
qed

lemma GenerateTokens_Some:
  assumes "GenerateTokens rnd numTokens takenTokens = Some ts"
  shows "int (length ts) = max 0 numTokens" and "distinct ts"
    and "set ts \<inter> set takenTokens = {}" and "set ts \<subseteq> set rnd"
  using assms draw_fresh_Some [of "nat numTokens" takenTokens rnd ts]
  by (auto simp: GenerateTokens_def split: if_splits)

text \<open>A run of consecutive draws that misses the set \<open>T\<close> has all its tokens fresh.\<close>

lemma card_fresh_run:
  fixes T :: "32 word set"
  assumes "b \<le> 2 ^ 32" and "\<forall>t\<in>T. unat t < a \<or> b \<le> unat t"
  shows "card (set (map word_of_nat [a..<b]) - T) = b - a"
proof -
  have u: "unat (word_of_nat n :: 32 word) = n" if "n < b" for n
    using that assms(1) by (simp add: unat_of_nat)
  have "inj_on (word_of_nat :: nat \<Rightarrow> 32 word) {a..<b}"
    by (rule inj_on_inverseI [where g = unat]) (simp add: u)
  then have c: "card ((word_of_nat :: nat \<Rightarrow> 32 word) ` {a..<b}) = b - a"
    by (simp add: card_image)
  have "word_of_nat n \<notin> T" if "a \<le> n" and "n < b" for n
    using assms(2) u [OF that(2)] that by force
  then have "set (map word_of_nat [a..<b]) - T = word_of_nat ` {a..<b}"
    by auto
  with c show ?thesis
    by simp
qed

text \<open>
  C9 (as amended). When the random source offers enough fresh tokens, so that the generator
  returns, \<open>OnRingInstanceRegister\<close> returns a token list whose length is the larger of
  \<open>RingNumTokens\<close> and the number of inherited tokens: exactly \<open>RingNumTokens\<close> for an
  instance that is new or whose prior descriptor holds at most \<open>RingNumTokens\<close> tokens, and
  all the inherited tokens otherwise.
\<close>

theorem token_count:
  assumes "RingNumTokens - int (length (if instanceExists then Tokens instanceDesc else []))
             \<le> int (card (set rnd - set (snd (TokensFor ringDesc instanceID))))"
  shows "\<exists>tokens.
           OnRingInstanceRegister RingNumTokens rnd ringDesc instanceExists instanceID instanceDesc
             = Some (JOINING, tokens)
         \<and> int (length tokens) =
             max RingNumTokens (int (length (if instanceExists then Tokens instanceDesc else [])))"
proof -
  let ?inh = "if instanceExists then Tokens instanceDesc else []"
  let ?taken = "snd (TokensFor ringDesc instanceID)"
  from GenerateTokens_returns [OF assms] obtain ts where
    g: "GenerateTokens rnd (RingNumTokens - int (length ?inh)) ?taken = Some ts"
    by blast
  from GenerateTokens_Some(1) [OF g] have "int (length (?inh @ ts)) = max RingNumTokens (int (length ?inh))"
    by (simp add: max_def)
  with g show ?thesis
    by (simp add: OnRingInstanceRegister_def Let_def)
qed

theorem token_count_witness:
  "(128::int) - int (length (if False then Tokens \<lparr>State = PENDING, Tokens = []\<rparr> else []))
      \<le> int (card (set (map word_of_nat [0..<128])
                 - set (snd (TokensFor \<lparr>Ingesters = []\<rparr> ''am-1''))))
   \<and> (\<exists>tokens.
         OnRingInstanceRegister 128 (map word_of_nat [0..<128]) \<lparr>Ingesters = []\<rparr> False ''am-1''
            \<lparr>State = PENDING, Tokens = []\<rparr> = Some (JOINING, tokens)
       \<and> int (length tokens) =
           max 128 (int (length (if False then Tokens \<lparr>State = PENDING, Tokens = []\<rparr> else []))))"
proof -
  have "card (set (map word_of_nat [0..<128]) - ({} :: 32 word set)) = 128 - 0"
    by (rule card_fresh_run) simp_all
  then have h: "(128::int) - int (length (if False then Tokens \<lparr>State = PENDING, Tokens = []\<rparr> else []))
      \<le> int (card (set (map word_of_nat [0..<128])
                 - set (snd (TokensFor \<lparr>Ingesters = []\<rparr> ''am-1''))))"
    by (simp add: TokensFor_def)
  from token_count [OF h] h show ?thesis
    by (simp only: simp_thms)
qed

text \<open>
  C9 as stated fails for an instance that exists with more tokens than \<open>RingNumTokens\<close>:
  with 129 prior tokens and \<open>RingNumTokens = 128\<close>, the callback keeps the 129.
\<close>

theorem token_count_counterexample:
  "OnRingInstanceRegister 128 []
      \<lparr>Ingesters = [(''am-1'', \<lparr>State = ACTIVE, Tokens = map word_of_nat [0..<129]\<rparr>)]\<rparr>
      True ''am-1'' \<lparr>State = ACTIVE, Tokens = map word_of_nat [0..<129]\<rparr>
     = Some (JOINING, map word_of_nat [0..<129])
   \<and> length (map word_of_nat [0..<129] :: 32 word list) = 129
   \<and> (129::nat) \<noteq> 128"
  by (simp add: OnRingInstanceRegister_def GenerateTokens_def)

text \<open>
  C10. On re-registration with the prior tokens \<open>t1, t2\<close> and \<open>RingNumTokens = 128\<close>, where
  the descriptor's taken tokens are the foreign tokens \<open>F\<close> and \<open>t1, t2\<close>, and the random
  source offers 126 fresh tokens: \<open>OnRingInstanceRegister\<close> returns the state JOINING and
  128 tokens, of which the first two are \<open>t1, t2\<close> in this order and the other 126 are
  disjoint from the taken set. Whatever \<open>instanceExists\<close> is, a state that is returned is
  JOINING, and for an instance that does not exist it is returned once the random source
  offers 128 fresh tokens.
\<close>

theorem rejoin_keeps_tokens:
  assumes "Tokens instanceDesc = [t1, t2]"
    and "set (snd (TokensFor ringDesc instanceID)) = F \<union> {t1, t2}"
    and "126 \<le> card (set rnd - (F \<union> {t1, t2}))"
  shows "(\<exists>tokens.
            OnRingInstanceRegister 128 rnd ringDesc True instanceID instanceDesc
              = Some (JOINING, tokens)
          \<and> length tokens = 128 \<and> take 2 tokens = [t1, t2]
          \<and> set (drop 2 tokens) \<inter> (F \<union> {t1, t2}) = {})
       \<and> (\<forall>instanceExists state tokens.
            OnRingInstanceRegister 128 rnd ringDesc instanceExists instanceID instanceDesc
              = Some (state, tokens) \<longrightarrow> state = JOINING)
       \<and> (128 \<le> card (set rnd - (F \<union> {t1, t2})) \<longrightarrow>
            (\<exists>tokens. OnRingInstanceRegister 128 rnd ringDesc False instanceID instanceDesc
               = Some (JOINING, tokens)))"
proof -
  let ?taken = "snd (TokensFor ringDesc instanceID)"
  from assms have "128 - int (length [t1, t2]) \<le> int (card (set rnd - set ?taken))"
    by simp
  from GenerateTokens_returns [OF this] obtain ts where
    g: "GenerateTokens rnd (128 - int (length [t1, t2])) ?taken = Some ts"
    by blast
  from GenerateTokens_Some [OF g] assms(2)
  have "length ts = 126" and "set ts \<inter> (F \<union> {t1, t2}) = {}"
    by simp_all
  with g assms(1) have 1: "OnRingInstanceRegister 128 rnd ringDesc True instanceID instanceDesc
              = Some (JOINING, [t1, t2] @ ts)
          \<and> length ([t1, t2] @ ts) = 128 \<and> take 2 ([t1, t2] @ ts) = [t1, t2]
          \<and> set (drop 2 ([t1, t2] @ ts)) \<inter> (F \<union> {t1, t2}) = {}"
    by (simp add: OnRingInstanceRegister_def Let_def)
  have 2: "state = JOINING"
    if "OnRingInstanceRegister 128 rnd ringDesc ex instanceID instanceDesc = Some (state, tokens)"
    for ex state tokens
    using that by (auto simp: OnRingInstanceRegister_def Let_def split: option.splits)
  have 3: "\<exists>tokens. OnRingInstanceRegister 128 rnd ringDesc False instanceID instanceDesc
               = Some (JOINING, tokens)"
    if "128 \<le> card (set rnd - (F \<union> {t1, t2}))"
  proof -
    from that assms(2) have "128 - int (length ([] :: 32 word list)) \<le> int (card (set rnd - set ?taken))"
      by simp
    from GenerateTokens_returns [OF this] show ?thesis
      by (auto simp: OnRingInstanceRegister_def Let_def)
  qed
  from 1 2 3 show ?thesis
    by blast
qed

theorem rejoin_keeps_tokens_witness:
  "Tokens \<lparr>State = ACTIVE, Tokens = [1, 2]\<rparr> = [1, 2]
   \<and> set (snd (TokensFor
        \<lparr>Ingesters = [(''am-1'', \<lparr>State = ACTIVE, Tokens = [1, 2]\<rparr>),
                      (''am-2'', \<lparr>State = ACTIVE, Tokens = [10]\<rparr>)]\<rparr> ''am-1'')) = {10} \<union> {1, 2}
   \<and> 126 \<le> card (set (map word_of_nat [11..<139]) - ({10} \<union> {1, 2 :: 32 word}))
   \<and> (\<exists>tokens.
        OnRingInstanceRegister 128 (map word_of_nat [11..<139])
          \<lparr>Ingesters = [(''am-1'', \<lparr>State = ACTIVE, Tokens = [1, 2]\<rparr>),
                        (''am-2'', \<lparr>State = ACTIVE, Tokens = [10]\<rparr>)]\<rparr>
          True ''am-1'' \<lparr>State = ACTIVE, Tokens = [1, 2]\<rparr> = Some (JOINING, tokens)
        \<and> length tokens = 128 \<and> take 2 tokens = [1, 2]
        \<and> set (drop 2 tokens) \<inter> ({10} \<union> {1, 2}) = {})
   \<and> (\<exists>tokens.
        OnRingInstanceRegister 128 (map word_of_nat [11..<139])
          \<lparr>Ingesters = [(''am-1'', \<lparr>State = ACTIVE, Tokens = [1, 2]\<rparr>),
                        (''am-2'', \<lparr>State = ACTIVE, Tokens = [10]\<rparr>)]\<rparr>
          False ''am-1'' \<lparr>State = ACTIVE, Tokens = [1, 2]\<rparr> = Some (JOINING, tokens))"
proof -
  let ?d = "\<lparr>State = ACTIVE, Tokens = [1, 2 :: 32 word]\<rparr>"
  let ?rd = "\<lparr>Ingesters = [(''am-1'', ?d), (''am-2'', \<lparr>State = ACTIVE, Tokens = [10]\<rparr>)]\<rparr>"
  let ?rnd = "map word_of_nat [11..<139] :: 32 word list"
  have a: "Tokens ?d = [1, 2]"
    by simp
  have b: "set (snd (TokensFor ?rd ''am-1'')) = {10} \<union> {1, 2}"
    by (auto simp: TokensFor_def)
  have c: "card (set ?rnd - ({10} \<union> {1, 2})) = 139 - 11"
    by (rule card_fresh_run) simp_all
  then have c1: "126 \<le> card (set ?rnd - ({10} \<union> {1, 2}))"
    and c2: "128 \<le> card (set ?rnd - ({10} \<union> {1, 2}))"
    by simp_all
  from rejoin_keeps_tokens [OF a b c1] c2 a b c1 show ?thesis
    by (simp only: simp_thms)
qed

end
